theory Spec2Isabelle
  imports Complex_Main
begin

section \<open>Errors raised by the library and by the runtime\<close>

text \<open>
  An exception of the source is a value: \<open>UnknownCharacter\<close> and \<open>IgnoredInAlphabet\<close> are
  the two \<^verbatim>\<open>throw new Error\<close> of \<^verbatim>\<open>oneHotEncode\<close>; \<open>TypeError\<close> and \<open>RangeError\<close> are
  raised by the runtime itself (reading a property of \<^verbatim>\<open>undefined\<close>, allocating an array
  whose length is not an array length).
\<close>

datatype error = UnknownCharacter char | IgnoredInAlphabet char | TypeError | RangeError

section \<open>One-hot encoding\<close>

text \<open>
  \<^verbatim>\<open>String.prototype.toUpperCase\<close> on one ASCII character: the 26 lower-case letters go to
  their upper-case counterparts, every other ASCII character is unchanged.
\<close>

definition lowerCaseLetters :: "char list" where
  "lowerCaseLetters = ''abcdefghijklmnopqrstuvwxyz''"

definition upperCaseLetters :: "char list" where
  "upperCaseLetters = ''ABCDEFGHIJKLMNOPQRSTUVWXYZ''"

definition toUpperCase :: "char \<Rightarrow> char" where
  "toUpperCase c =
     (case map_of (zip lowerCaseLetters upperCaseLetters) c of
        Some u \<Rightarrow> u
      | None \<Rightarrow> c)"

text \<open>
  The validation loop of \<^verbatim>\<open>oneHotEncode\<close>: the first character of \<open>ignore\<close> that is also in
  the alphabet raises.
\<close>

fun checkIgnore :: "char list \<Rightarrow> char list \<Rightarrow> error option" where
  "checkIgnore alphabet [] = None"
| "checkIgnore alphabet (c # cs) =
     (if c \<in> set alphabet then Some (IgnoredInAlphabet c) else checkIgnore alphabet cs)"

text \<open>
  \<^verbatim>\<open>charMap\<close>: every alphabet character is set to its index, in order (a later duplicate
  overwrites), then every ignored character is set to \<open>-1\<close>.
\<close>

definition charMap :: "char list \<Rightarrow> char list \<Rightarrow> (char \<rightharpoonup> int)" where
  "charMap alphabet ignore =
     fold (\<lambda>c m. m(c \<mapsto> - 1)) ignore
       (fold (\<lambda>(c, idx) m. m(c \<mapsto> int idx)) (zip alphabet [0..<length alphabet]) Map.empty)"

text \<open>
  The filling loop, from position \<open>i\<close> on: the upper-cased character is looked up; an
  unknown one raises, an index \<open>\<ge> 0\<close> sets \<^verbatim>\<open>oneHot[idx][i] = 1\<close>, the index \<open>-1\<close> of an
  ignored character leaves the column all zero.
\<close>

fun fillOneHot :: "(char \<rightharpoonup> int) \<Rightarrow> char list \<Rightarrow> nat \<Rightarrow> nat list list \<Rightarrow> error + nat list list" where
  "fillOneHot cm [] i oneHot = Inr oneHot"
| "fillOneHot cm (c # cs) i oneHot =
     (let ch = toUpperCase c in
      case cm ch of
        None \<Rightarrow> Inl (UnknownCharacter ch)
      | Some idx \<Rightarrow>
          fillOneHot cm cs (Suc i)
            (if idx \<ge> 0 then oneHot[nat idx := (oneHot ! nat idx)[i := 1]] else oneHot))"

definition oneHotEncode :: "char list \<Rightarrow> char list \<Rightarrow> char list \<Rightarrow> error + nat list list" where
  "oneHotEncode sequence alphabet ignore =
     (case checkIgnore alphabet ignore of
        Some e \<Rightarrow> Inl e
      | None \<Rightarrow>
          fillOneHot (charMap alphabet ignore) sequence 0
            (replicate (length alphabet) (replicate (length sequence) 0)))"


section \<open>Numbers\<close>

text \<open>
  A number of the source is an IEEE double. The model keeps the special values and
  idealises the finite ones as reals: \<open>Fin a\<close> is the finite number \<open>a\<close>, computed without
  rounding and without overflow; \<open>NegInf\<close>, \<open>PosInf\<close> and \<open>NaN\<close> are \<^verbatim>\<open>-Infinity\<close>,
  \<^verbatim>\<open>Infinity\<close> and \<^verbatim>\<open>NaN\<close>. The two zeros are one value. The operations below are the
  arithmetic of the source on these values.
\<close>

datatype jsnum = NaN | NegInf | Fin real | PosInf















text \<open>Sequencing of computations that may raise: the first error ends the computation.\<close>

definition bindE :: "error + 'a \<Rightarrow> ('a \<Rightarrow> error + 'b) \<Rightarrow> error + 'b" where
  "bindE m f = (case m of Inl e \<Rightarrow> Inl e | Inr x \<Rightarrow> f x)"

section \<open>Log-sum-exp in base 2\<close>



section \<open>The score distribution of a log-PWM\<close>

















section \<open>FIMO: scanning sequences with a motif\<close>

datatype strand = Plus | Minus

record hit =
  sequence_idx :: nat
  start :: nat
  hit_end :: nat
  strand :: strand
  score :: jsnum
  p_value :: jsnum






















section \<open>Notions used to state the properties of the scan\<close>












section \<open>The binned median\<close>

text \<open>
  The cells of a motif are finite numbers, modelled as reals; so are the distances, the
  medians and the scores of TOMTOM.

  \<^verbatim>\<open>binIdx = Math.min(Math.floor((values[i] - minVal) / range * (nBins - 1)), nBins - 1)\<close>.
\<close>

definition binIndex :: "real \<Rightarrow> real \<Rightarrow> real \<Rightarrow> nat \<Rightarrow> int" where
  "binIndex v minVal rng nBins =
     min \<lfloor>(v - minVal) / rng * (real nBins - 1)\<rfloor> (int nBins - 1)"

text \<open>
  The loop that fills the bins; a bin is the pair of its count and its sum. An index
  outside \<open>0 .. nBins - 1\<close> reads \<^verbatim>\<open>undefined\<close> as the bin and raises a TypeError at
  \<^verbatim>\<open>bins[binIdx][0]\<close>. The values and the counts are paired: every call of the source
  passes as many counts as values.
\<close>

fun fillBins :: "(real \<times> real) list \<Rightarrow> real \<Rightarrow> real \<Rightarrow> nat \<Rightarrow> (real \<times> real) list \<Rightarrow> real
    \<Rightarrow> error + (real \<times> real) list \<times> real" where
  "fillBins [] minVal rng nBins bins totalWeight = Inr (bins, totalWeight)"
| "fillBins ((v, c) # rest) minVal rng nBins bins totalWeight =
     (let binIdx = binIndex v minVal rng nBins in
      if 0 \<le> binIdx \<and> binIdx < int nBins
      then fillBins rest minVal rng nBins
             (bins[nat binIdx := (fst (bins ! nat binIdx) + c, snd (bins ! nat binIdx) + v * c)])
             (totalWeight + c)
      else Inl TypeError)"

text \<open>
  The walk over the bins in ascending order: the first bin at which the cumulated count
  reaches \<open>halfway\<close> gives its mean, or \<open>minVal\<close> when it is empty; without one the
  result is \<open>maxVal\<close>.
\<close>

fun walkBins :: "(real \<times> real) list \<Rightarrow> real \<Rightarrow> real \<Rightarrow> real \<Rightarrow> real \<Rightarrow> real" where
  "walkBins [] cumCount halfway minVal maxVal = maxVal"
| "walkBins ((cnt, binSum) # rest) cumCount halfway minVal maxVal =
     (if cumCount + cnt \<ge> halfway
      then (if cnt > 0 then binSum / cnt else minVal)
      else walkBins rest (cumCount + cnt) halfway minVal maxVal)"

definition binnedMedian :: "real list \<Rightarrow> real \<Rightarrow> real \<Rightarrow> real list \<Rightarrow> nat \<Rightarrow> error + real" where
  "binnedMedian values minVal maxVal counts nBins =
     (let rng = maxVal - minVal in
      if rng = 0 then Inr minVal
      else bindE (fillBins (zip values counts) minVal rng nBins (replicate nBins (0, 0)) 0)
             (\<lambda>(bins, totalWeight). Inr (walkBins bins 0 (totalWeight / 2) minVal maxVal)))"

section \<open>TOMTOM: the alignment of two motifs\<close>

record alignment =
  al_score :: jsnum
  al_offset :: int
  al_overlap :: nat
  al_pValue :: real

record tomtom_result =
  pValues :: "real list list"
  scores :: "jsnum list list"
  offsets :: "int list list"
  overlaps :: "nat list list"
  strands :: "nat list list"

record tomtom_options =
  opt_nScoreBins :: nat
  opt_nMedianBins :: nat
  opt_nCache :: nat
  opt_rc :: bool

definition defaultTomtomOptions :: tomtom_options where
  "defaultTomtomOptions = \<lparr> opt_nScoreBins = 100, opt_nMedianBins = 1000, opt_nCache = 100,
     opt_rc = True \<rparr>"

text \<open>
  \<^verbatim>\<open>_calculateAlignment\<close> reads the cells \<open>[char][pos]\<close> for the four symbols and every
  position below the width, which is the length of row 0. \<open>readable m w\<close> holds when
  these cells exist.
\<close>

definition readable :: "real list list \<Rightarrow> nat \<Rightarrow> bool" where
  "readable m w = (4 \<le> length m \<and> list_all (\<lambda>row. w \<le> length row) (take 4 m))"

text \<open>
  \<^verbatim>\<open>-Math.sqrt(dist)\<close> with \<open>dist\<close> the sum over the four symbols of the squared
  differences, and the matrix \<open>distances[tPos][qPos]\<close>.
\<close>

definition columnDistance :: "real list list \<Rightarrow> real list list \<Rightarrow> nat \<Rightarrow> nat \<Rightarrow> real" where
  "columnDistance query target qPos tPos =
     - sqrt (fold (\<lambda>c dist. dist + (query ! c ! qPos - target ! c ! tPos)\<^sup>2) [0, 1, 2, 3] 0)"

definition distanceMatrix :: "real list list \<Rightarrow> real list list \<Rightarrow> nat \<Rightarrow> nat \<Rightarrow> real list list" where
  "distanceMatrix query target queryLength targetLength =
     map (\<lambda>tPos. map (\<lambda>qPos. columnDistance query target qPos tPos) [0..<queryLength])
       [0..<targetLength]"

text \<open>
  The median of one query position is subtracted from its column. The values are the
  column, \<open>minVal\<close> and \<open>maxVal\<close> their minimum and maximum, the counts are all \<open>1\<close>.
  With no target position there is nothing to subtract from (the source then computes a
  median of no values, which it does not use).
\<close>

definition centreColumn :: "nat \<Rightarrow> nat \<Rightarrow> real list list \<Rightarrow> error + real list list" where
  "centreColumn nMedianBins qPos distances =
     (case map (\<lambda>row. row ! qPos) distances of
        [] \<Rightarrow> Inr distances
      | v # vs \<Rightarrow>
          bindE (binnedMedian (v # vs) (fold min vs v) (fold max vs v)
                   (replicate (length (v # vs)) 1) nMedianBins)
            (\<lambda>median. Inr (map (\<lambda>row. row[qPos := row ! qPos - median]) distances)))"

fun centreLoop :: "nat \<Rightarrow> nat list \<Rightarrow> real list list \<Rightarrow> error + real list list" where
  "centreLoop nMedianBins [] distances = Inr distances"
| "centreLoop nMedianBins (qPos # rest) distances =
     bindE (centreColumn nMedianBins qPos distances) (centreLoop nMedianBins rest)"

text \<open>The score and the overlap of one offset.\<close>

definition offsetScore :: "real list list \<Rightarrow> nat \<Rightarrow> nat \<Rightarrow> int \<Rightarrow> real \<times> nat" where
  "offsetScore distances queryLength targetLength offset =
     fold (\<lambda>qPos (sc, ov).
             let tPos = int qPos + offset in
             if 0 \<le> tPos \<and> tPos < int targetLength
             then (sc + distances ! nat tPos ! qPos, ov + 1)
             else (sc, ov))
       [0..<queryLength] (0, 0)"

text \<open>
  The loop over the offsets. \<open>None\<close> is the state before any offset was taken, where
  \<open>bestScore\<close> is \<^verbatim>\<open>-Infinity\<close>: every score is larger. Later an offset is taken when
  its score is strictly larger, so of several offsets with the largest score the first
  one remains.
\<close>

fun bestLoop :: "real list list \<Rightarrow> nat \<Rightarrow> nat \<Rightarrow> int list \<Rightarrow> (real \<times> int \<times> nat) option
    \<Rightarrow> (real \<times> int \<times> nat) option" where
  "bestLoop distances queryLength targetLength [] best = best"
| "bestLoop distances queryLength targetLength (offset # rest) best =
     (let (sc, ov) = offsetScore distances queryLength targetLength offset in
      bestLoop distances queryLength targetLength rest
        (case best of
           None \<Rightarrow> Some (sc, offset, ov)
         | Some (bestScore, bestOffset, bestOverlap) \<Rightarrow>
             if sc > bestScore then Some (sc, offset, ov) else best))"

text \<open>
  The object that is returned, with
  \<^verbatim>\<open>pValue = Math.max(1e-15, Math.exp(-Math.abs(bestScore) / 100))\<close>; for the score
  \<^verbatim>\<open>-Infinity\<close> the exponential is \<open>0\<close>.
\<close>

definition toAlignment :: "(real \<times> int \<times> nat) option \<Rightarrow> alignment" where
  "toAlignment best =
     (case best of
        None \<Rightarrow> \<lparr> al_score = NegInf, al_offset = 0, al_overlap = 0, al_pValue = 1 / 10 ^ 15 \<rparr>
      | Some (bestScore, bestOffset, bestOverlap) \<Rightarrow>
          \<lparr> al_score = Fin bestScore, al_offset = bestOffset, al_overlap = bestOverlap,
            al_pValue = max (1 / 10 ^ 15) (exp (- \<bar>bestScore\<bar> / 100)) \<rparr>)"

text \<open>
  \<^verbatim>\<open>_calculateAlignment(query, target, nScoreBins, nMedianBins)\<close>. It raises a TypeError
  on an empty matrix (\<^verbatim>\<open>query[0].length\<close>), and, when both widths are positive, on a
  matrix with a cell missing: a missing row raises at once, a missing cell gives a
  distance \<^verbatim>\<open>NaN\<close>, with which the bin index of the median is \<^verbatim>\<open>NaN\<close>, and
  \<^verbatim>\<open>bins[NaN][0]\<close> raises.
\<close>

definition calculateAlignment :: "real list list \<Rightarrow> real list list \<Rightarrow> nat \<Rightarrow> nat \<Rightarrow> error + alignment" where
  "calculateAlignment query target nScoreBins nMedianBins =
     (case (query, target) of
        (q0 # _, t0 # _) \<Rightarrow>
          let queryLength = length q0; targetLength = length t0 in
          if 0 < queryLength \<and> 0 < targetLength
             \<and> \<not> (readable query queryLength \<and> readable target targetLength)
          then Inl TypeError
          else
            bindE (centreLoop nMedianBins [0..<queryLength]
                     (distanceMatrix query target queryLength targetLength))
              (\<lambda>distances.
                 Inr (toAlignment
                        (bestLoop distances queryLength targetLength
                           [1 - int queryLength .. int targetLength - 1] None)))
      | _ \<Rightarrow> Inl TypeError)"

text \<open>
  One cell of \<^verbatim>\<open>tomtom\<close>: \<open>bestAlignment\<close> starts as
  \<^verbatim>\<open>{ pValue: 1, score: 0, offset: 0, overlap: 0 }\<close>; the forward alignment replaces it
  when its p-value is strictly smaller, and so does, with strand \<open>1\<close>, the alignment
  against the reverse complement of the target (rows and columns both reversed) when
  \<open>reverseComplement\<close> is set.
\<close>

definition initialAlignment :: alignment where
  "initialAlignment = \<lparr> al_score = Fin 0, al_offset = 0, al_overlap = 0, al_pValue = 1 \<rparr>"

definition tomtomCell :: "tomtom_options \<Rightarrow> real list list \<Rightarrow> real list list \<Rightarrow> error + alignment \<times> nat" where
  "tomtomCell opts query target =
     bindE (calculateAlignment query target (opt_nScoreBins opts) (opt_nMedianBins opts))
       (\<lambda>fwdAlignment.
          let (bestAlignment, bestStrand) =
                (if al_pValue fwdAlignment < al_pValue initialAlignment
                 then (fwdAlignment, 0) else (initialAlignment, 0))
          in if opt_rc opts
             then bindE (calculateAlignment query (map rev (rev target))
                           (opt_nScoreBins opts) (opt_nMedianBins opts))
                    (\<lambda>rcAlignment.
                       Inr (if al_pValue rcAlignment < al_pValue bestAlignment
                            then (rcAlignment, 1) else (bestAlignment, bestStrand)))
             else Inr (bestAlignment, bestStrand))"

fun mapE :: "('a \<Rightarrow> error + 'b) \<Rightarrow> 'a list \<Rightarrow> error + 'b list" where
  "mapE f [] = Inr []"
| "mapE f (x # xs) = bindE (f x) (\<lambda>y. bindE (mapE f xs) (\<lambda>ys. Inr (y # ys)))"

definition tomtom :: "real list list list \<Rightarrow> real list list list \<Rightarrow> tomtom_options \<Rightarrow> error + tomtom_result" where
  "tomtom queries targets opts =
     bindE (mapE (\<lambda>query. mapE (tomtomCell opts query) targets) queries)
       (\<lambda>cells.
          Inr \<lparr> pValues = map (map (\<lambda>(a, s). al_pValue a)) cells,
                scores = map (map (\<lambda>(a, s). al_score a)) cells,
                offsets = map (map (\<lambda>(a, s). al_offset a)) cells,
                overlaps = map (map (\<lambda>(a, s). al_overlap a)) cells,
                strands = map (map (\<lambda>(a, s). s)) cells \<rparr>)"

text \<open>The cell \<open>(qIdx, tIdx)\<close> of the result matrices, as an alignment.\<close>

definition storedCell :: "tomtom_result \<Rightarrow> nat \<Rightarrow> nat \<Rightarrow> alignment" where
  "storedCell R qIdx tIdx =
     \<lparr> al_score = scores R ! qIdx ! tIdx, al_offset = offsets R ! qIdx ! tIdx,
       al_overlap = overlaps R ! qIdx ! tIdx, al_pValue = pValues R ! qIdx ! tIdx \<rparr>"




text \<open>
  Motifs of the concrete runs below. Their columns are \<open>(1/2, 1/2, 0, 0)\<close> and
  \<open>(0, 0, 1/2, 1/2)\<close>, at distance \<open>1\<close> of each other, and \<open>(1, 0, 0, 0)\<close>.
\<close>

definition queryY4 :: "real list list" where
  "queryY4 = [[0, 0, 0, 0], [0, 0, 0, 0], [1 / 2, 1 / 2, 1 / 2, 1 / 2], [1 / 2, 1 / 2, 1 / 2, 1 / 2]]"

definition targetXYYYX :: "real list list" where
  "targetXYYYX = [[1 / 2, 0, 0, 0, 1 / 2], [1 / 2, 0, 0, 0, 1 / 2],
                  [0, 1 / 2, 1 / 2, 1 / 2, 0], [0, 1 / 2, 1 / 2, 1 / 2, 0]]"




section \<open>Properties of the one-hot encoding\<close>

lemma toUpperCase_other: "c \<notin> set lowerCaseLetters \<Longrightarrow> toUpperCase c = c"
proof -
  assume "c \<notin> set lowerCaseLetters"
  moreover have "length lowerCaseLetters = length upperCaseLetters"
    by (simp add: lowerCaseLetters_def upperCaseLetters_def)
  ultimately have "map_of (zip lowerCaseLetters upperCaseLetters) c = None"
    by (simp add: map_of_zip_is_None)
  then show ?thesis by (simp add: toUpperCase_def)
qed

lemma toUpperCase_range: "toUpperCase c \<notin> set lowerCaseLetters"
proof (cases "c \<in> set lowerCaseLetters")
  case False
  then show ?thesis by (simp add: toUpperCase_other)
next
  case True
  have "length lowerCaseLetters = length upperCaseLetters"
    by (simp add: lowerCaseLetters_def upperCaseLetters_def)
  with True obtain u where u: "map_of (zip lowerCaseLetters upperCaseLetters) c = Some u"
    using map_of_zip_is_Some by fastforce
  then have "u \<in> set upperCaseLetters"
    by (meson in_set_zipE map_of_SomeD)
  moreover have "set upperCaseLetters \<inter> set lowerCaseLetters = {}"
    by (simp add: lowerCaseLetters_def upperCaseLetters_def)
  ultimately show ?thesis using u by (auto simp add: toUpperCase_def)
qed

lemma toUpperCase_idem: "toUpperCase (toUpperCase c) = toUpperCase c"
  by (rule toUpperCase_other) (rule toUpperCase_range)

lemmas toUpperCase_eval = toUpperCase_def lowerCaseLetters_def upperCaseLetters_def

lemma fillOneHot_upper:
  "fillOneHot cm (map toUpperCase s) i oneHot = fillOneHot cm s i oneHot"
  by (induction s arbitrary: i oneHot)
    (simp_all add: toUpperCase_idem Let_def split: option.splits)

lemma charMap_default:
  "charMap ''ACGT'' ''N'' =
     [CHR ''A'' \<mapsto> 0, CHR ''C'' \<mapsto> 1, CHR ''G'' \<mapsto> 2, CHR ''T'' \<mapsto> 3, CHR ''N'' \<mapsto> - 1]"
  by (simp add: charMap_def)

lemma charMap_default_dna_all:
  "\<forall>c \<in> set ''acgtnACGTN''. charMap ''ACGT'' ''N'' (toUpperCase c) \<noteq> None"
  by (simp add: charMap_default toUpperCase_eval)

lemma charMap_default_dna:
  "c \<in> set ''acgtnACGTN'' \<Longrightarrow> charMap ''ACGT'' ''N'' (toUpperCase c) \<noteq> None"
  using charMap_default_dna_all by blast

lemma fillOneHot_default_succeeds:
  "set s \<subseteq> set ''acgtnACGTN'' \<Longrightarrow> \<exists>m. fillOneHot (charMap ''ACGT'' ''N'') s i oneHot = Inr m"
proof (induction s arbitrary: i oneHot)
  case Nil
  show ?case by simp
next
  case (Cons c cs)
  from Cons.prems have c: "c \<in> set ''acgtnACGTN''" and cs: "set cs \<subseteq> set ''acgtnACGTN''"
    by simp_all
  from charMap_default_dna [OF c] obtain idx
    where idx: "charMap ''ACGT'' ''N'' (toUpperCase c) = Some idx" by blast
  show ?case using Cons.IH [OF cs] by (simp add: Let_def idx)
qed

text \<open>
  C10. For every sequence over the characters a, c, g, t, n, A, C, G, T, N, the encoding
  with the default alphabet ACGT and the default ignore list N does not raise, and it
  returns the same matrix as the encoding of the upper-cased sequence.
\<close>

theorem oneHotEncode_case_insensitive:
  assumes "set s \<subseteq> set ''acgtnACGTN''"
  shows "\<exists>m. oneHotEncode s ''ACGT'' ''N'' = Inr m
           \<and> oneHotEncode (map toUpperCase s) ''ACGT'' ''N'' = Inr m"
proof -
  from fillOneHot_default_succeeds [OF assms] obtain m
    where "fillOneHot (charMap ''ACGT'' ''N'') s 0
             (replicate (length ''ACGT'') (replicate (length s) 0)) = Inr m"
    by blast
  then show ?thesis
    by (simp add: oneHotEncode_def fillOneHot_upper)
qed

theorem oneHotEncode_case_insensitive_witness:
  "set ''acNgt'' \<subseteq> set ''acgtnACGTN''
   \<and> oneHotEncode ''acNgt'' ''ACGT'' ''N''
       = Inr [[1,0,0,0,0],[0,1,0,0,0],[0,0,0,1,0],[0,0,0,0,1]]
   \<and> oneHotEncode (map toUpperCase ''acNgt'') ''ACGT'' ''N''
       = Inr [[1,0,0,0,0],[0,1,0,0,0],[0,0,0,1,0],[0,0,0,0,1]]"
proof -
  have dom: "set ''acNgt'' \<subseteq> set ''acgtnACGTN''"
    by simp
  have val: "oneHotEncode ''acNgt'' ''ACGT'' ''N''
      = Inr [[1,0,0,0,0],[0,1,0,0,0],[0,0,0,1,0],[0,0,0,0,1]]"
    by (simp add: oneHotEncode_def charMap_default toUpperCase_eval Let_def)
  from oneHotEncode_case_insensitive [OF dom] val dom show ?thesis
    by auto
qed


section \<open>Properties of the log-sum-exp\<close>












section \<open>Properties of the score distribution\<close>











































section \<open>Properties of the scan\<close>

lemma bindE_Inr: "bindE m f = Inr y \<Longrightarrow> \<exists>x. m = Inr x \<and> f x = Inr y"
  by (cases m) (simp_all add: bindE_def)







































section \<open>Properties of the alignment\<close>

lemma replicate_update:
  "i < n \<Longrightarrow> (replicate n z)[i := y] = replicate i z @ y # replicate (n - Suc i) z"
  by (induction n arbitrary: i) (auto simp add: list_update_code split: nat.splits)

lemma list_update_Cons_numeral:
  "(x # xs)[numeral k := v] = x # xs[pred_numeral k := v]"
  by (simp add: numeral_eq_Suc)

lemma walkBins_empty_bins:
  "cumCount < halfway \<Longrightarrow>
   walkBins (replicate n (0, 0) @ rest) cumCount halfway minVal maxVal
     = walkBins rest cumCount halfway minVal maxVal"
  by (induction n) simp_all

lemmas median_eval = binnedMedian_def binIndex_def bindE_def Let_def replicate_update
  list_update_Cons_numeral walkBins_empty_bins list_update_append nth_append

lemma upt_0_4: "[0..<4] = [0, 1, 2, 3]"
  by (simp add: eval_nat_numeral)

lemma upt_0_5: "[0..<5] = [0, 1, 2, 3, 4]"
  by (simp add: eval_nat_numeral)

lemmas upto_eval = upto.simps [of 0 "numeral n"] upto.simps [of 1 "numeral n"]
  upto.simps [of "- 1" "numeral n"] upto.simps [of "- 1" 1] upto.simps [of 0 1]
  upto.simps [of 1 1] upto.simps [of 0 0] for n

lemmas align_eval = calculateAlignment_def readable_def distanceMatrix_def columnDistance_def
  centreColumn_def offsetScore_def toAlignment_def power2_eq_square


lemma mapE_Inr:
  "mapE f xs = Inr ys \<Longrightarrow> length ys = length xs \<and> (\<forall>i < length xs. f (xs ! i) = Inr (ys ! i))"
proof (induction xs arbitrary: ys)
  case Nil
  then show ?case by simp
next
  case (Cons x xs)
  from Cons.prems obtain y ys' where y: "f x = Inr y" and ys': "mapE f xs = Inr ys'"
    and ys: "ys = y # ys'"
    by (auto dest!: bindE_Inr)
  from Cons.IH [OF ys'] y ys show ?case
    by (auto simp add: nth_Cons split: nat.splits)
qed

lemma toAlignment_pValue_le_1: "al_pValue (toAlignment best) \<le> 1"
  by (cases best) (auto simp add: toAlignment_def)

lemma calculateAlignment_pValue_le_1:
  "calculateAlignment query target nsb nmb = Inr a \<Longrightarrow> al_pValue a \<le> 1"
  by (auto simp add: calculateAlignment_def Let_def toAlignment_pValue_le_1
      split: list.splits if_splits dest!: bindE_Inr)

lemma calculateAlignment_pValue_score:
  "calculateAlignment query target nsb nmb = Inr a \<Longrightarrow> al_score a = Fin s \<Longrightarrow>
   al_pValue a = max (1 / 10 ^ 15) (exp (- \<bar>s\<bar> / 100))"
  by (auto simp add: calculateAlignment_def Let_def toAlignment_def
      split: list.splits if_splits option.splits dest!: bindE_Inr)

lemma tomtom_cells:
  assumes "tomtom queries targets opts = Inr R"
    and "qIdx < length queries" and "tIdx < length targets"
  shows "\<exists>a s. tomtomCell opts (queries ! qIdx) (targets ! tIdx) = Inr (a, s)
           \<and> storedCell R qIdx tIdx = a \<and> strands R ! qIdx ! tIdx = s"
proof -
  from assms(1) obtain cells
    where cells: "mapE (\<lambda>query. mapE (tomtomCell opts query) targets) queries = Inr cells"
      and R: "R = \<lparr> pValues = map (map (\<lambda>(a, s). al_pValue a)) cells,
                scores = map (map (\<lambda>(a, s). al_score a)) cells,
                offsets = map (map (\<lambda>(a, s). al_offset a)) cells,
                overlaps = map (map (\<lambda>(a, s). al_overlap a)) cells,
                strands = map (map (\<lambda>(a, s). s)) cells \<rparr>"
    by (auto simp add: tomtom_def dest!: bindE_Inr)
  from mapE_Inr [OF cells] assms(2)
  have len: "length cells = length queries"
    and row: "mapE (tomtomCell opts (queries ! qIdx)) targets = Inr (cells ! qIdx)"
    by simp_all
  from mapE_Inr [OF row] assms(3)
  have rlen: "length (cells ! qIdx) = length targets"
    and cell: "tomtomCell opts (queries ! qIdx) (targets ! tIdx) = Inr (cells ! qIdx ! tIdx)"
    by simp_all
  obtain a s where as: "cells ! qIdx ! tIdx = (a, s)" by (cases "cells ! qIdx ! tIdx")
  from assms(2,3) len rlen as have "storedCell R qIdx tIdx = a" "strands R ! qIdx ! tIdx = s"
    by (simp_all add: R storedCell_def)
  with cell as show ?thesis by simp
qed

lemma forward_XYYYX: "calculateAlignment queryY4 targetXYYYX 100 1000 =
   Inr \<lparr> al_score = Fin (- 1), al_offset = - 3, al_overlap = 1,
         al_pValue = max (1 / 10 ^ 15) (exp (- 1 / 100)) \<rparr>"
  by (simp add: queryY4_def targetXYYYX_def align_eval median_eval upt_0_4 upt_0_5 upto_eval)

lemma rcTarget: "map rev (rev targetXYYYX) =
   [[0, 1 / 2, 1 / 2, 1 / 2, 0], [0, 1 / 2, 1 / 2, 1 / 2, 0],
    [1 / 2, 0, 0, 0, 1 / 2], [1 / 2, 0, 0, 0, 1 / 2]]"
  by (simp add: targetXYYYX_def)

lemma reverse_XYYYX: "calculateAlignment queryY4 (map rev (rev targetXYYYX)) 100 1000 =
   Inr \<lparr> al_score = Fin 1, al_offset = - 3, al_overlap = 1,
         al_pValue = max (1 / 10 ^ 15) (exp (- 1 / 100)) \<rparr>"
  by (simp add: queryY4_def rcTarget align_eval median_eval upt_0_4 upt_0_5 upto_eval)

lemma tomtom_XYYYX: "tomtom [queryY4] [targetXYYYX] defaultTomtomOptions =
   Inr \<lparr> pValues = [[max (1 / 10 ^ 15) (exp (- 1 / 100))]], scores = [[Fin (- 1)]],
         offsets = [[- 3]], overlaps = [[1]], strands = [[0]] \<rparr>"
  by (simp add: tomtom_def tomtomCell_def defaultTomtomOptions_def forward_XYYYX reverse_XYYYX bindE_def
      initialAlignment_def Let_def)


text \<open>
  C4, as stated, fails. The query has four columns \<open>(0, 0, 1/2, 1/2)\<close>, the target the
  columns \<open>X Y Y Y X\<close> with \<open>X = (1/2, 1/2, 0, 0)\<close> and \<open>Y = (0, 0, 1/2, 1/2)\<close>. The best
  forward alignment has the score \<open>-1\<close>, the best alignment against the reverse
  complement the score \<open>1\<close>, which is strictly larger; both have the same p-value, so
  \<^verbatim>\<open>tomtom\<close> stores the strand \<open>0\<close> and the forward score \<open>-1\<close>.
\<close>

theorem tomtom_strand_counterexample:
  "calculateAlignment queryY4 targetXYYYX 100 1000 =
     Inr \<lparr> al_score = Fin (- 1), al_offset = - 3, al_overlap = 1,
           al_pValue = max (1 / 10 ^ 15) (exp (- 1 / 100)) \<rparr>
   \<and> calculateAlignment queryY4 (map rev (rev targetXYYYX)) 100 1000 =
     Inr \<lparr> al_score = Fin 1, al_offset = - 3, al_overlap = 1,
           al_pValue = max (1 / 10 ^ 15) (exp (- 1 / 100)) \<rparr>
   \<and> (- 1 :: real) < 1
   \<and> tomtom [queryY4] [targetXYYYX] defaultTomtomOptions =
     Inr \<lparr> pValues = [[max (1 / 10 ^ 15) (exp (- 1 / 100))]], scores = [[Fin (- 1)]],
           offsets = [[- 3]], overlaps = [[1]], strands = [[0]] \<rparr>"
  using forward_XYYYX reverse_XYYYX tomtom_XYYYX by simp

text \<open>
  C4, amended. In \<^verbatim>\<open>tomtom\<close> with \<open>reverseComplement = true\<close>, for every query and
  target of a call that returns, \<open>strands[q][t] = 1\<close> exactly when the p-value of the
  best alignment against the reverse-complemented target is strictly smaller than the
  p-value of the best forward alignment, and \<open>0\<close> otherwise, where the p-value of an
  alignment of score \<open>s\<close> is \<open>max(1e-15, exp(-|s| / 100))\<close>. The (score, offset,
  overlap, p-value) stored are those of the reverse-complement alignment when the
  strand is \<open>1\<close>, and those of the forward alignment when the strand is \<open>0\<close> and the
  forward p-value is below \<open>1\<close>.
\<close>

theorem tomtom_strand_by_pValue:
  assumes "tomtom queries targets opts = Inr R" and "opt_rc opts"
    and "qIdx < length queries" and "tIdx < length targets"
  shows "\<exists>fwd rc.
     calculateAlignment (queries ! qIdx) (targets ! tIdx)
         (opt_nScoreBins opts) (opt_nMedianBins opts) = Inr fwd
     \<and> calculateAlignment (queries ! qIdx) (map rev (rev (targets ! tIdx)))
         (opt_nScoreBins opts) (opt_nMedianBins opts) = Inr rc
     \<and> strands R ! qIdx ! tIdx = (if al_pValue rc < al_pValue fwd then 1 else 0)
     \<and> (al_pValue rc < al_pValue fwd \<longrightarrow> storedCell R qIdx tIdx = rc)
     \<and> (\<not> al_pValue rc < al_pValue fwd \<and> al_pValue fwd < 1 \<longrightarrow> storedCell R qIdx tIdx = fwd)
     \<and> (\<forall>s. al_score fwd = Fin s \<longrightarrow> al_pValue fwd = max (1 / 10 ^ 15) (exp (- \<bar>s\<bar> / 100)))
     \<and> (\<forall>s. al_score rc = Fin s \<longrightarrow> al_pValue rc = max (1 / 10 ^ 15) (exp (- \<bar>s\<bar> / 100)))"
proof -
  from tomtom_cells [OF assms(1,3,4)] obtain a s
    where cell: "tomtomCell opts (queries ! qIdx) (targets ! tIdx) = Inr (a, s)"
      and stored: "storedCell R qIdx tIdx = a" and strand: "strands R ! qIdx ! tIdx = s"
    by blast
  let ?q = "queries ! qIdx" and ?t = "targets ! tIdx"
  from cell assms(2) obtain fwd rc
    where fwd: "calculateAlignment ?q ?t (opt_nScoreBins opts) (opt_nMedianBins opts) = Inr fwd"
      and rc: "calculateAlignment ?q (map rev (rev ?t)) (opt_nScoreBins opts) (opt_nMedianBins opts) = Inr rc"
      and res: "(a, s) =
         (if al_pValue rc < al_pValue (if al_pValue fwd < 1 then fwd else initialAlignment)
          then (rc, 1)
          else (if al_pValue fwd < 1 then fwd else initialAlignment, 0))"
    by (auto simp add: tomtomCell_def Let_def initialAlignment_def split: if_splits dest!: bindE_Inr)
  from calculateAlignment_pValue_le_1 [OF fwd] have le: "al_pValue fwd \<le> 1" .
  have best: "al_pValue (if al_pValue fwd < 1 then fwd else initialAlignment) = al_pValue fwd"
    using le by (simp add: initialAlignment_def)
  from res best have s: "s = (if al_pValue rc < al_pValue fwd then 1 else 0)"
    and a1: "al_pValue rc < al_pValue fwd \<longrightarrow> a = rc"
    and a2: "\<not> al_pValue rc < al_pValue fwd \<and> al_pValue fwd < 1 \<longrightarrow> a = fwd"
    by (auto split: if_splits)
  from fwd rc s a1 a2 stored strand
    calculateAlignment_pValue_score [OF fwd] calculateAlignment_pValue_score [OF rc]
  show ?thesis by blast
qed

theorem tomtom_strand_by_pValue_witness:
  "tomtom [queryY4] [targetXYYYX] defaultTomtomOptions =
     Inr \<lparr> pValues = [[max (1 / 10 ^ 15) (exp (- 1 / 100))]], scores = [[Fin (- 1)]],
           offsets = [[- 3]], overlaps = [[1]], strands = [[0]] \<rparr>
   \<and> opt_rc defaultTomtomOptions \<and> (0::nat) < length [queryY4] \<and> (0::nat) < length [targetXYYYX]
   \<and> strands \<lparr> pValues = [[max (1 / 10 ^ 15) (exp (- 1 / 100))]], scores = [[Fin (- 1)]],
           offsets = [[- 3]], overlaps = [[1]], strands = [[0]] \<rparr> ! 0 ! 0 = 0"
proof -
  have a: "opt_rc defaultTomtomOptions" by (simp add: defaultTomtomOptions_def)
  have b: "(0::nat) < length [queryY4]" and c: "(0::nat) < length [targetXYYYX]" by simp_all
  from tomtom_strand_by_pValue [OF tomtom_XYYYX a b c] tomtom_XYYYX a b c show ?thesis by simp
qed






























end
